theory Spec2Isabelle
  imports Main "HOL-Library.Sublist"
begin

section \<open>Strings, slices and the chunker of \<^verbatim>\<open>src/agents.py\<close>\<close>

text \<open>
  A Python \<^verbatim>\<open>str\<close> is a sequence of Unicode code points and \<^verbatim>\<open>len\<close> counts code
  points, so a string is modelled as a list of code points (natural numbers). ASCII
  text is written through \<open>ascii\<close>, which maps every character of an Isabelle string
  to its code.
\<close>

type_synonym pystr = "nat list"

definition ascii :: "string \<Rightarrow> pystr" where
  "ascii s = map of_char s"

text \<open>
  \<^verbatim>\<open>xs[i:j]\<close> for integers \<^verbatim>\<open>i\<close> and \<^verbatim>\<open>j\<close>: a negative index counts from the end, both
  indices are clamped into \<open>0 .. len(xs)\<close>, and the slice is empty when the adjusted
  start is not below the adjusted stop.
\<close>

definition py_slice :: "'a list \<Rightarrow> int \<Rightarrow> int \<Rightarrow> 'a list" where
  "py_slice xs i j =
     (let n = int (length xs);
          i1 = (if i < 0 then i + n else i);
          i2 = (if i1 < 0 then 0 else if n \<le> i1 then n else i1);
          j1 = (if j < 0 then j + n else j);
          j2 = (if j1 < 0 then 0 else if n \<le> j1 then n else j1)
      in if i2 < j2 then take (nat (j2 - i2)) (drop (nat i2) xs) else [])"

text \<open>
  \<^verbatim>\<open>
  def chunk_document(document: str, max_length: int = 5000) -> list[str]:
      chunks = []
      start = 0
      while start < len(document):
          end = min(start + max_length, len(document))
          chunks.append(document[start:end])
          start = end
      return chunks
  \<close>
  \<open>chunk_end\<close> is the right-hand side of the assignment to \<^verbatim>\<open>end\<close>. The \<^verbatim>\<open>while\<close>
  loop is \<open>chunk_loop\<close>, whose arguments after the two parameters are the loop's
  variables \<^verbatim>\<open>start\<close> and \<^verbatim>\<open>chunks\<close>. \<^verbatim>\<open>max_length\<close> is any Python integer: with
  \<^verbatim>\<open>max_length <= 0\<close> and a non-empty document the loop never ends, so the loop is a
  partial function and \<open>None\<close> stands for a run that does not return.
\<close>

definition chunk_end :: "'a list \<Rightarrow> int \<Rightarrow> int \<Rightarrow> int" where
  "chunk_end document max_length start = min (start + max_length) (int (length document))"

partial_function (option) chunk_loop ::
  "'a list \<Rightarrow> int \<Rightarrow> int \<Rightarrow> 'a list list \<Rightarrow> 'a list list option" where
  "chunk_loop document max_length start chunks =
     (if start < int (length document)
      then chunk_loop document max_length (chunk_end document max_length start)
             (chunks @ [py_slice document start (chunk_end document max_length start)])
      else Some chunks)"

declare chunk_loop.simps [code]

definition chunk_document :: "'a list \<Rightarrow> int \<Rightarrow> 'a list list option" where
  "chunk_document document max_length = chunk_loop document max_length 0 []"

definition default_max_length :: int where
  "default_max_length = 5000"

subsection \<open>A reference splitting, used to describe what the loop builds\<close>

text \<open>
  \<open>slices n xs\<close> cuts \<open>xs\<close> into consecutive pieces of \<open>n\<close> elements, the last one
  holding what is left. It is not part of the program: the loop is shown to compute it.
\<close>

function slices :: "nat \<Rightarrow> 'a list \<Rightarrow> 'a list list" where
  "slices n xs = (if n = 0 \<or> xs = [] then [] else take n xs # slices n (drop n xs))"
  by pat_completeness auto
termination
  by (relation "measure (\<lambda>(n, xs). length xs)") auto

section \<open>Messages, exceptions and \<^verbatim>\<open>str.format\<close>\<close>

text \<open>
  The two message classes of \<^verbatim>\<open>langchain_core.messages\<close> that the module builds, each with
  its \<^verbatim>\<open>content\<close>.
\<close>

datatype message = SystemMessage pystr | HumanMessage pystr

text \<open>
  Exceptions are values. \<open>ValueError\<close> carries its message and \<open>KeyError\<close> the missing
  key. \<open>ClientError\<close> stands for any exception (a subclass of \<^verbatim>\<open>Exception\<close>) that the
  completion client raises from \<^verbatim>\<open>model.invoke\<close>; it carries the text that \<^verbatim>\<open>str(e)\<close>
  gives. \<open>str_exn\<close> is \<^verbatim>\<open>str(e)\<close>; for a \<open>KeyError\<close> Python gives the \<^verbatim>\<open>repr\<close> of the key,
  which for a key without quotes, backslashes and unprintable characters is the key
  between single quotes.
\<close>

datatype exn = ValueError pystr | KeyError pystr | ClientError pystr

fun str_exn :: "exn \<Rightarrow> pystr" where
  "str_exn (ValueError m) = m"
| "str_exn (KeyError k) = [39] @ k @ [39]"
| "str_exn (ClientError m) = m"

definition prepend :: "pystr \<Rightarrow> exn + pystr \<Rightarrow> exn + pystr" where
  "prepend s r = (case r of Inl e \<Rightarrow> Inl e | Inr t \<Rightarrow> Inr (s @ t))"

text \<open>
  \<^verbatim>\<open>prompt.format(document=document)\<close>, read from left to right as \<^verbatim>\<open>str.format\<close> does.
  \<open>format_text\<close> copies literal text; code 123 is the opening brace and 125 the closing
  brace. A doubled brace stands for one brace, a closing brace alone is an error, and an
  opening brace starts a replacement field, whose text \<open>format_field\<close> collects up to the
  next closing brace. The field \<^verbatim>\<open>{document}\<close> is replaced by the keyword argument, which is
  copied as it is and not read again for fields. The call passes no other argument, so a
  field that is another plain name raises \<^verbatim>\<open>KeyError\<close>. Fields with a number, an attribute,
  an index, a conversion or a format specification are outside this model (none of the
  prompts of the module has one); the model gives them the \<open>KeyError\<close> too.
\<close>

definition single_close :: pystr where
  "single_close = ascii ''Single '' @ [39] @ ascii ''}'' @ [39] @ ascii '' encountered in format string''"

definition single_open :: pystr where
  "single_open = ascii ''Single '' @ [39] @ ascii ''{'' @ [39] @ ascii '' encountered in format string''"

definition expected_close :: pystr where
  "expected_close = ascii ''expected '' @ [39] @ ascii ''}'' @ [39] @ ascii '' before end of string''"

fun format_text :: "pystr \<Rightarrow> pystr \<Rightarrow> exn + pystr"
  and format_field :: "pystr \<Rightarrow> pystr \<Rightarrow> pystr \<Rightarrow> exn + pystr" where
  "format_text [] document = Inr []"
| "format_text (c # cs) document =
     (if c = 123 then
        (case cs of
           [] \<Rightarrow> Inl (ValueError single_open)
         | c' # cs' \<Rightarrow>
             if c' = 123 then prepend [123] (format_text cs' document)
             else format_field cs document [])
      else if c = 125 then
        (case cs of
           [] \<Rightarrow> Inl (ValueError single_close)
         | c' # cs' \<Rightarrow>
             if c' = 125 then prepend [125] (format_text cs' document)
             else Inl (ValueError single_close))
      else prepend [c] (format_text cs document))"
| "format_field [] document name = Inl (ValueError expected_close)"
| "format_field (c # cs) document name =
     (if c = 125 then
        (if name = ascii ''document'' then prepend document (format_text cs document)
         else Inl (KeyError name))
      else format_field cs document (name @ [c]))"

definition py_format :: "pystr \<Rightarrow> pystr \<Rightarrow> exn + pystr" where
  "py_format prompt document = format_text prompt document"

text \<open>\<^verbatim>\<open>sep.join(parts)\<close>.\<close>

fun py_join :: "pystr \<Rightarrow> pystr list \<Rightarrow> pystr" where
  "py_join sep [] = []"
| "py_join sep [x] = x"
| "py_join sep (x # y # ys) = x @ sep @ py_join sep (y # ys)"

text \<open>
  A string literal that spans several source lines is written as the list of its lines;
  \<open>py_lines\<close> puts the line feeds (code 10) back between them.
\<close>

definition py_lines :: "pystr list \<Rightarrow> pystr" where
  "py_lines ls = py_join [10] ls"

text \<open>
  \<^verbatim>\<open>
  def create_messages(prompt: str, document: str):
      return [
          SystemMessage(content="You are a legal expert AI assistant."),
          HumanMessage(content=prompt.format(document=document))
      ]
  \<close>
\<close>

definition create_messages :: "pystr \<Rightarrow> pystr \<Rightarrow> exn + message list" where
  "create_messages prompt document =
     (case py_format prompt document of
        Inl e \<Rightarrow> Inl e
      | Inr text \<Rightarrow>
          Inr [SystemMessage (ascii ''You are a legal expert AI assistant.''),
               HumanMessage text])"

section \<open>The prompts\<close>

text \<open>
  Every prompt of the six task agents is one string literal with the replacement field
  alone on one of its lines, after sixteen spaces. \<open>field_line\<close> is that line.
\<close>

definition field_line :: pystr where
  "field_line = ascii ''                {document}''"

text \<open>The prompt of \<^verbatim>\<open>legal_summary_agent\<close> (source lines 46 to 93): the lines before the line
  that holds the replacement field, and the lines after it.\<close>

definition summary_head :: "pystr list" where
  "summary_head = [
     ascii ''You are an expert legal AI assistant specialized in Serbian law. Your primary task is to create SHORT, HIGH-EFFICIENCY summaries of legal documents. Every summary must be concise and focused only on the most critical information a lawyer needs to know.'',
     [],
     ascii ''                CORE REQUIREMENTS:'',
     [],
     ascii ''                Maximum length: 600 words total'',
     ascii ''                Focus on actionable information'',
     ascii ''                Prioritize only the most critical points'',
     ascii ''                Use precise, economical language'',
     [],
     ascii ''                SUMMARY STRUCTURE:'',
     [],
     ascii ''                BASIC INFORMATION (2'' @ [8211] @ ascii ''3 lines)'',
     ascii ''                Case/Document Number: [Number, Date, Type]'',
     ascii ''                Parties: [Only main parties]'',
     ascii ''                Forum: [Court/Authority]'',
     [],
     ascii ''                CRITICAL OVERVIEW (30'' @ [8211] @ ascii ''40 words)'',
     ascii ''                One short paragraph covering the key issue and current status.'',
     [],
     ascii ''                KEY LEGAL ELEMENTS'',
     ascii ''                Primary Legal Issue: [Most important legal question]'',
     ascii ''                Essential Facts:'',
     ascii ''                '' @ [8226] @ ascii '' [Max 3 bullet points]'',
     ascii ''                Decisive Arguments:'',
     ascii ''                '' @ [8226] @ ascii '' [Strongest argument for each side]'',
     ascii ''                Key Evidence:'',
     ascii ''                '' @ [8226] @ ascii '' [Only evidence that determines the case outcome]'',
     [],
     ascii ''                OUTCOME & IMPACT (2'' @ [8211] @ ascii ''3 bullets)'',
     ascii ''                '' @ [8226] @ ascii '' Decision/Status'',
     ascii ''                '' @ [8226] @ ascii '' Urgent required action'',
     ascii ''                '' @ [8226] @ ascii '' Main risk/opportunity'',
     [],
     ascii ''                VITAL REFERENCES'',
     ascii ''                '' @ [8226] @ ascii '' Primary legal provision'',
     ascii ''                '' @ [8226] @ ascii '' Precedent (if applicable)'',
     [],
     ascii ''                WRITING GUIDELINES:'',
     ascii ''                Use short, declarative sentences'',
     ascii ''                Include only information that affects decision-making'',
     ascii ''                Exclude background unless essential'',
     ascii ''                Focus on conclusions rather than explanations'',
     ascii ''                Highlight only time-sensitive elements'',
     [],
     ascii ''                Please deliver a short summary of the following document, strictly following the length and format requirements above:'']"

definition summary_tail :: "pystr list" where
  "summary_tail = [
     ascii ''                '',
     ascii ''                Always respond in English, regardless of the document language.'']"

text \<open>The prompt of \<^verbatim>\<open>legal_appeal_agent\<close> (source lines 111 to 148): the lines before the line
  that holds the replacement field, and the lines after it.\<close>

definition appeal_head :: "pystr list" where
  "appeal_head = [
     ascii ''You are a legal assistant specialized in drafting formal appeals based on the provided legal document.'',
     ascii ''                Analyze the document and generate an appeal following the structure below:'',
     [],
     ascii ''                1. Header'',
     ascii ''                [NAME OF COURT]'',
     ascii ''                [JURISDICTION]'',
     ascii ''                [Case Number]'',
     ascii ''                [NAME OF APPELLANT], Appellant'',
     ascii ''                vs.'',
     ascii ''                [NAME OF RESPONDENT], Respondent'',
     [],
     ascii ''                2. APPEAL / NOTICE OF APPEAL'',
     ascii ''                [Formal notice of appeal]'',
     [],
     ascii ''                3. Statement of Jurisdiction'',
     ascii ''                [Explanation of the court'' @ [8217] @ ascii ''s jurisdiction]'',
     [],
     ascii ''                4. Statement of Facts'',
     ascii ''                [Factual background]'',
     [],
     ascii ''                5. Issues on Appeal'',
     ascii ''                [List of specific issues being appealed]'',
     [],
     ascii ''                6. Argument'',
     ascii ''                [Detailed arguments for each issue]'',
     [],
     ascii ''                7. Conclusion'',
     ascii ''                [Requested outcome]'',
     [],
     ascii ''                8. Signature and Contact Information'',
     ascii ''                [Signature and details]'',
     [],
     ascii ''                9. Certificate of Service'',
     ascii ''                [Proof of service]'',
     [],
     ascii ''                Analyze the following document and fill in this structure:'']"

definition appeal_tail :: "pystr list" where
  "appeal_tail = [
     ascii ''                Always respond in English, regardless of the document language.'']"

text \<open>The prompt of \<^verbatim>\<open>legal_review_agent\<close> (source lines 165 to 213): the lines before the line
  that holds the replacement field, and the lines after it.\<close>

definition review_head :: "pystr list" where
  "review_head = [
     ascii ''You are an expert in Serbian law, an AI legal analyst with deep knowledge of Serbian contract, commercial and civil law.'',
     ascii ''                Where applicable, follow the guidelines below for specific document types. Create a focused legal review of the document (maximum 750 words). Your goal is to produce a concise, actionable overview that Serbian lawyers can immediately use.'',
     [],
     ascii ''                SUMMARY FOR ENFORCEMENT (3'' @ [8211] @ ascii ''4 sentences max)'',
     ascii ''                - Type of document, purpose, and parties'',
     ascii ''                - Applicable law and jurisdiction'',
     ascii ''                - Key financial or business obligations'',
     ascii ''                - Critical compliance status'',
     [],
     ascii ''                HIGH-PRIORITY ANALYSIS'',
     ascii ''                A. Legal Compliance (Top 3 critical issues)'',
     ascii ''                - Compliance problems with Serbian law, referencing specific statutes'',
     ascii ''                - Missing mandatory clauses required by the Serbian Civil Code'',
     ascii ''                - Consumer protection law issues (if applicable)'',
     ascii ''                - EU law implications affecting validity'',
     [],
     ascii ''                B. Risk Assessment (Top 3 by severity)'',
     ascii ''                - Business/legal risks with potential impact'',
     ascii ''                - Concerns about enforceability before Serbian courts'',
     ascii ''                - Deviations from Serbian market practice'',
     ascii ''                - Conflicts with recent Supreme Court precedents'',
     [],
     ascii ''                ACTION PLAN (maximum 5 points)'',
     ascii ''                - Required amendments for legal compliance'',
     ascii ''                - Specific clause modifications needed'',
     ascii ''                - Additional recommended provisions'',
     ascii ''                - Steps to mitigate risks'',
     ascii ''                - Practical guidance for implementation'',
     [],
     ascii ''                REVIEW REQUIREMENTS'',
     ascii ''                - Reference specific Serbian laws, regulations, and case law'',
     ascii ''                - Focus on essential issues, not formatting'',
     ascii ''                - Prioritize problems based on legal/business impact'',
     ascii ''                - Keep the language clear and action-oriented'',
     ascii ''                - Include business-critical EU law implications (when relevant)'',
     [],
     ascii ''                FINAL SUMMARY'',
     ascii ''                A 3-sentence conclusion highlighting the most urgent issue requiring immediate attention.'',
     [],
     ascii ''                REVIEW PARAMETERS'',
     ascii ''                - Each section must be direct and concise'',
     ascii ''                - Focus on major legal issues, not minor technicalities'',
     ascii ''                - Include only relevant case law references'',
     ascii ''                - Maintain practical business context'',
     ascii ''                - Emphasize any urgent compliance issues'',
     [],
     ascii ''                Analyze the following document according to these parameters:'']"

definition review_tail :: "pystr list" where
  "review_tail = [
     ascii ''                Always respond in English, regardless of the document language.'']"

text \<open>The prompt of \<^verbatim>\<open>legal_lawsuit_agent\<close> (source lines 230 to 271): the lines before the line
  that holds the replacement field, and the lines after it.\<close>

definition lawsuit_head :: "pystr list" where
  "lawsuit_head = [
     ascii ''You are an AI assistant designed to help Serbian lawyers draft legal complaints and related documents.'',
     ascii ''                Analyze the document and generate a legal complaint following the structure below:'',
     [],
     ascii ''                [Name of Court]'',
     ascii ''                [Jurisdiction]'',
     ascii ''                [Case Number]'',
     [],
     ascii ''                PLAINTIFF: [Extract from document]'',
     ascii ''                DEFENDANT: [Extract from document]'',
     [],
     ascii ''                COMPLAINT'',
     [],
     ascii ''                I. INTRODUCTION'',
     ascii ''                [Generate an introduction based on the document]'',
     [],
     ascii ''                II. JURISDICTION AND VENUE'',
     ascii ''                [Determine the proper jurisdiction]'',
     [],
     ascii ''                III. PARTIES'',
     ascii ''                [Details about the parties extracted from the document]'',
     [],
     ascii ''                IV. FACTUAL ALLEGATIONS'',
     ascii ''                [Extract and organize the facts]'',
     [],
     ascii ''                V. CAUSES OF ACTION'',
     ascii ''                [Legal grounds for the claim]'',
     [],
     ascii ''                VI. DAMAGES'',
     ascii ''                [Specify the damages]'',
     [],
     ascii ''                VII. PRAYER FOR RELIEF'',
     ascii ''                [Formulate the requested remedies]'',
     [],
     ascii ''                VIII. REQUEST FOR JUDICIAL PANEL'',
     ascii ''                [Standard request]'',
     [],
     ascii ''                IX. EXHIBITS'',
     ascii ''                [List supporting evidence]'',
     [],
     ascii ''                Analyze the following document and complete the structure:'']"

definition lawsuit_tail :: "pystr list" where
  "lawsuit_tail = [
     ascii ''                Always respond in English, regardless of the document language.'']"

text \<open>The prompt of \<^verbatim>\<open>legal_lawsuit_response_agent\<close> (source lines 288 to 322): the lines before the line
  that holds the replacement field, and the lines after it.\<close>

definition lawsuit_response_head :: "pystr list" where
  "lawsuit_response_head = [
     ascii ''You are an AI assistant designed to help Serbian lawyers prepare legal answers to lawsuits.'',
     ascii ''                Analyze the document and generate an answer to the complaint using the structure below:'',
     [],
     ascii ''                [Name of Court]'',
     ascii ''                [Jurisdiction]'',
     ascii ''                [Case Number]'',
     [],
     ascii ''                Defendant: [Extract from document]'',
     ascii ''                Address: [Defendant'' @ [8217] @ ascii ''s Address]'',
     ascii ''                Phone: [Defendant'' @ [8217] @ ascii ''s Phone]'',
     ascii ''                Email: [Defendant'' @ [8217] @ ascii ''s Email]'',
     [],
     ascii ''                ANSWER TO COMPLAINT'',
     [],
     ascii ''                I. INTRODUCTION'',
     ascii ''                [Generate an introduction based on the document]'',
     [],
     ascii ''                II. RESPONSE TO FACTUAL ALLEGATIONS'',
     ascii ''                [Address each allegation made by the plaintiff individually]'',
     [],
     ascii ''                III. LEGAL ARGUMENTS'',
     ascii ''                [Legal arguments and counterarguments]'',
     [],
     ascii ''                IV. EVIDENCE'',
     ascii ''                [List and describe supporting evidence]'',
     [],
     ascii ''                V. REQUEST FOR RELIEF'',
     ascii ''                [Formulate the defendant'' @ [8217] @ ascii ''s requests]'',
     [],
     ascii ''                VI. EXHIBITS'',
     ascii ''                [List the exhibits]'',
     [],
     ascii ''                Analyze the following document and complete the structure:'']"

definition lawsuit_response_tail :: "pystr list" where
  "lawsuit_response_tail = [
     ascii ''                Always respond in English, regardless of the document language.'']"

text \<open>The prompt of \<^verbatim>\<open>legal_contract_analysis_agent\<close> (source lines 339 to 380): the lines before the line
  that holds the replacement field, and the lines after it.\<close>

definition contract_analysis_head :: "pystr list" where
  "contract_analysis_head = [
     ascii ''You are a legal contract analyst specialized in Serbian law.'',
     ascii ''                Please analyze the following contract according to these criteria:'',
     [],
     ascii ''                1. Basic Elements of the Contract:'',
     ascii ''                   - Offer and acceptance'',
     ascii ''                   - Consideration and intent'',
     ascii ''                   - Capacity to contract'',
     ascii ''                   - Compliance with the Law on Obligations (Zakon o obligacionim odnosima)'',
     [],
     ascii ''                2. Key Clauses:'',
     ascii ''                   - Identification and explanation of important provisions'',
     ascii ''                   - Assessment of clarity and enforceability'',
     ascii ''                   - Recommendations for improvement'',
     ascii ''                   - Potential legal ambiguities'',
     [],
     ascii ''                3. Legal Compliance:'',
     ascii ''                   - Verification of compliance with Serbian laws'',
     ascii ''                   - References to relevant regulations'',
     ascii ''                   - Alignment with case law'',
     ascii ''                   - Regulatory concerns'',
     [],
     ascii ''                4. Risk Assessment:'',
     ascii ''                   - Legal risks'',
     ascii ''                   - Financial risks'',
     ascii ''                   - Operational risks'',
     ascii ''                   - Recommendations for mitigation'',
     [],
     ascii ''                5. Special Provisions:'',
     ascii ''                   - Choice of law and jurisdiction'',
     ascii ''                   - International aspects (if any)'',
     ascii ''                   - Sector-specific requirements'',
     ascii ''                   - Data protection and confidentiality'',
     [],
     ascii ''                6. Recommendations for Improvement:'',
     ascii ''                   - Specific proposed amendments'',
     ascii ''                   - Additional protective measures'',
     ascii ''                   - Alignment with best practices'',
     ascii ''                   - Legal optimization'',
     [],
     ascii ''                Analyze the following contract:'']"

definition contract_analysis_tail :: "pystr list" where
  "contract_analysis_tail = [
     ascii ''                Always respond in English, regardless of the document language.'']"

text \<open>The system message of \<^verbatim>\<open>legal_chat_helper_agent\<close> (source lines 393 to 414), line by line.\<close>

definition chat_system_lines :: "pystr list" where
  "chat_system_lines = [
     [],
     ascii ''            You are the '' @ [34] @ ascii ''Legal Chat Helper Agent,'' @ [34] @ ascii '' designed to assist users in working with legal documents.'',
     ascii ''            Your role is to:'',
     ascii ''            - Guide users through document-related tasks'',
     ascii ''            - Explain content in simple, easy-to-understand language'',
     ascii ''            - Help interpret specific sections of documents'',
     ascii ''            - Suggest relevant actions (summaries, appeals, reviews, etc.)'',
     ascii ''            - Stay neutral and professional'',
     ascii ''            - Provide accurate, helpful responses'',
     ascii ''            '',
     ascii ''            When responding:'',
     ascii ''            1. First understand if the user needs:'',
     ascii ''               - An explanation of the document'',
     ascii ''               - Help editing or modifying the document'',
     ascii ''               - Guidance on using other agents'',
     ascii ''               - General legal questions'',
     ascii ''                                       '',
     ascii ''            2. Provide clear, structured guidance'',
     ascii ''            3. Suggest practical next steps'',
     ascii ''            4. Base your response strictly on the provided document'',
     ascii ''            Always respond in English, regardless of the document language.'',
     ascii ''        '']"

text \<open>The three literal parts of the f-string of \<^verbatim>\<open>legal_chat_helper_agent\<close> (source lines
  416 to 428): before \<^verbatim>\<open>{question}\<close>, between the two fields, and after \<^verbatim>\<open>{document}\<close>.\<close>

definition chat_before_question :: "pystr list" where
  "chat_before_question = [
     [],
     ascii ''            Based on this legal document, please help with the following:'',
     ascii ''            '',
     ascii ''            User Question: '']"

definition chat_between :: "pystr list" where
  "chat_between = [
     [],
     ascii ''            '',
     ascii ''            Document Content:'',
     ascii ''            ---'',
     ascii ''            '']"

definition chat_after_document :: "pystr list" where
  "chat_after_document = [
     [],
     ascii ''            ---'',
     ascii ''            '',
     ascii ''            Please provide a helpful and detailed response while maintaining professional legal tone.'',
     ascii ''            Always respond in English, regardless of the document language.'',
     ascii ''        '']"

text \<open>The six tasks that share one agent body, and the prompt of each.\<close>

datatype task = Summary | Appeal | Review | Lawsuit | LawsuitResponse | ContractAnalysis

fun prompt_head :: "task \<Rightarrow> pystr list" where
  "prompt_head Summary = summary_head"
| "prompt_head Appeal = appeal_head"
| "prompt_head Review = review_head"
| "prompt_head Lawsuit = lawsuit_head"
| "prompt_head LawsuitResponse = lawsuit_response_head"
| "prompt_head ContractAnalysis = contract_analysis_head"

fun prompt_tail :: "task \<Rightarrow> pystr list" where
  "prompt_tail Summary = summary_tail"
| "prompt_tail Appeal = appeal_tail"
| "prompt_tail Review = review_tail"
| "prompt_tail Lawsuit = lawsuit_tail"
| "prompt_tail LawsuitResponse = lawsuit_response_tail"
| "prompt_tail ContractAnalysis = contract_analysis_tail"

definition prompt_of :: "task \<Rightarrow> pystr" where
  "prompt_of t = py_lines (prompt_head t @ [field_line] @ prompt_tail t)"

text \<open>The text each agent logs before the exception, and the text it returns before it.\<close>

fun log_prefix :: "task \<Rightarrow> pystr" where
  "log_prefix Summary = ascii ''Error in summary agent: ''"
| "log_prefix Appeal = ascii ''Error in appeal agent: ''"
| "log_prefix Review = ascii ''Error in review agent: ''"
| "log_prefix Lawsuit = ascii ''Error in lawsuit agent: ''"
| "log_prefix LawsuitResponse = ascii ''Error in lawsuit response agent: ''"
| "log_prefix ContractAnalysis = ascii ''Error in contract analysis agent: ''"

fun error_prefix :: "task \<Rightarrow> pystr" where
  "error_prefix Summary = ascii ''Error generating summary: ''"
| "error_prefix Appeal = ascii ''Error generating appeal: ''"
| "error_prefix Review = ascii ''Error generating review: ''"
| "error_prefix Lawsuit = ascii ''Error generating lawsuit: ''"
| "error_prefix LawsuitResponse = ascii ''Error generating lawsuit response: ''"
| "error_prefix ContractAnalysis = ascii ''Error analyzing contract: ''"

section \<open>The completion client and the agents\<close>

text \<open>
  The completion client is outside the module. It is a parameter of the model: a function
  from the messages submitted and the client's own state (which stands for everything
  the reply may depend on besides the request) to either an exception or the
  \<^verbatim>\<open>content\<close> of the response, and the next state. The world an agent runs in holds
  that state, the requests submitted so far, in order, and the lines written by
  \<^verbatim>\<open>logging.error\<close>.
\<close>

type_synonym 's client = "message list \<Rightarrow> 's \<Rightarrow> (exn + pystr) \<times> 's"

record 's world =
  client_state :: 's
  calls :: "message list list"
  error_log :: "pystr list"

text \<open>\<^verbatim>\<open>model.invoke(messages)\<close> followed by \<^verbatim>\<open>response.content\<close>.\<close>

definition model_invoke :: "'s client \<Rightarrow> message list \<Rightarrow> 's world \<Rightarrow> (exn + pystr) \<times> 's world" where
  "model_invoke client messages w =
     (case client messages (client_state w) of
        (r, s') \<Rightarrow> (r, w\<lparr>client_state := s', calls := calls w @ [messages]\<rparr>))"

definition logging_error :: "pystr \<Rightarrow> 's world \<Rightarrow> 's world" where
  "logging_error line w = w\<lparr>error_log := error_log w @ [line]\<rparr>"

text \<open>
  The six task agents have one body, which differs in the prompt and in the two error
  texts only (\<^verbatim>\<open>legal_summary_agent\<close> is shown):
  \<^verbatim>\<open>
  async def legal_summary_agent(document: str) -> str:
      try:
          doc_chunks = chunk_document(document)
          summaries = []
          for chunk in doc_chunks:
              messages = create_messages("""...""", chunk)
              response = model.invoke(messages)
              summaries.append(response.content)
          return " ".join(summaries)
      except Exception as e:
          logging.error(f"Error in summary agent: {e}")
          return f"Error generating summary: {str(e)}"
  \<close>
  \<open>agent_loop\<close> is the \<^verbatim>\<open>for\<close> loop over the chunks still to do, with the list of outputs
  collected so far; an exception ends it. \<open>task_agent\<close> is the body of the coroutine
  including the handler, so its result is always a string. Its value is \<open>None\<close> only if
  \<^verbatim>\<open>chunk_document\<close> does not return.
\<close>

fun agent_loop ::
  "'s client \<Rightarrow> pystr \<Rightarrow> pystr list \<Rightarrow> pystr list \<Rightarrow> 's world \<Rightarrow> (exn + pystr list) \<times> 's world" where
  "agent_loop client prompt [] parts w = (Inr parts, w)"
| "agent_loop client prompt (chunk # doc_chunks) parts w =
     (case create_messages prompt chunk of
        Inl e \<Rightarrow> (Inl e, w)
      | Inr messages \<Rightarrow>
          (case model_invoke client messages w of
             (Inl e, w') \<Rightarrow> (Inl e, w')
           | (Inr content, w') \<Rightarrow> agent_loop client prompt doc_chunks (parts @ [content]) w'))"

definition task_agent :: "task \<Rightarrow> 's client \<Rightarrow> pystr \<Rightarrow> 's world \<Rightarrow> (pystr \<times> 's world) option" where
  "task_agent t client document w =
     (case chunk_document document default_max_length of
        None \<Rightarrow> None
      | Some doc_chunks \<Rightarrow>
          (case agent_loop client (prompt_of t) doc_chunks [] w of
             (Inr parts, w') \<Rightarrow> Some (py_join (ascii '' '') parts, w')
           | (Inl e, w') \<Rightarrow>
               Some (error_prefix t @ str_exn e,
                     logging_error (log_prefix t @ str_exn e) w')))"

definition legal_summary_agent :: "'s client \<Rightarrow> pystr \<Rightarrow> 's world \<Rightarrow> (pystr \<times> 's world) option" where
  "legal_summary_agent = task_agent Summary"

definition legal_appeal_agent :: "'s client \<Rightarrow> pystr \<Rightarrow> 's world \<Rightarrow> (pystr \<times> 's world) option" where
  "legal_appeal_agent = task_agent Appeal"

definition legal_review_agent :: "'s client \<Rightarrow> pystr \<Rightarrow> 's world \<Rightarrow> (pystr \<times> 's world) option" where
  "legal_review_agent = task_agent Review"

definition legal_lawsuit_agent :: "'s client \<Rightarrow> pystr \<Rightarrow> 's world \<Rightarrow> (pystr \<times> 's world) option" where
  "legal_lawsuit_agent = task_agent Lawsuit"

definition legal_lawsuit_response_agent :: "'s client \<Rightarrow> pystr \<Rightarrow> 's world \<Rightarrow> (pystr \<times> 's world) option" where
  "legal_lawsuit_response_agent = task_agent LawsuitResponse"

definition legal_contract_analysis_agent :: "'s client \<Rightarrow> pystr \<Rightarrow> 's world \<Rightarrow> (pystr \<times> 's world) option" where
  "legal_contract_analysis_agent = task_agent ContractAnalysis"

text \<open>
  \<^verbatim>\<open>legal_chat_helper_agent(document, question="")\<close>: one request that holds the question and
  the whole document, and a fixed string when the call raises.
\<close>

definition chat_apology :: pystr where
  "chat_apology = ascii ''I apologize, but I encountered an error. Could you please rephrase your question or specify what you'' @ [39] @ ascii ''d like to know about the document?''"

definition chat_messages :: "pystr \<Rightarrow> pystr \<Rightarrow> message list" where
  "chat_messages document question =
     [SystemMessage (py_lines chat_system_lines),
      HumanMessage (py_lines chat_before_question @ question @ py_lines chat_between
                      @ document @ py_lines chat_after_document)]"

definition legal_chat_helper_agent :: "'s client \<Rightarrow> pystr \<Rightarrow> pystr \<Rightarrow> 's world \<Rightarrow> pystr \<times> 's world" where
  "legal_chat_helper_agent client document question w =
     (case model_invoke client (chat_messages document question) w of
        (Inr content, w') \<Rightarrow> (content, w')
      | (Inl e, w') \<Rightarrow>
          (chat_apology, logging_error (ascii ''Error in chat helper: '' @ str_exn e) w'))"

section \<open>Start of the module\<close>

text \<open>
  \<^verbatim>\<open>
  load_dotenv()
  api_key = os.getenv("OPENAI_API_KEY")
  if not api_key:
      raise ValueError("OPENAI_API_KEY not found in environment variables")
  model = ChatOpenAI(model="gpt-4o-mini", openai_api_key=api_key,
                     temperature=0.7, max_completion_tokens=2048)
  \<close>
  The statements run when the module is imported, before the functions are defined.
  \<^verbatim>\<open>load_dotenv\<close> adds the variables of the \<^verbatim>\<open>.env\<close> file (an empty map when there is no
  file) that the environment does not have yet. \<^verbatim>\<open>not api_key\<close> holds for \<^verbatim>\<open>None\<close> and for
  the empty string. The temperature is kept as the decimal literal, 7 times 10 to the -1.
\<close>

record chat_openai =
  model :: pystr
  openai_api_key :: pystr
  temperature :: "int \<times> int"
  max_completion_tokens :: nat

definition load_dotenv :: "(pystr \<rightharpoonup> pystr) \<Rightarrow> (pystr \<rightharpoonup> pystr) \<Rightarrow> (pystr \<rightharpoonup> pystr)" where
  "load_dotenv dotenv environ = dotenv ++ environ"

definition missing_key_error :: exn where
  "missing_key_error = ValueError (ascii ''OPENAI_API_KEY not found in environment variables'')"

definition module_init :: "(pystr \<rightharpoonup> pystr) \<Rightarrow> (pystr \<rightharpoonup> pystr) \<Rightarrow> exn + chat_openai" where
  "module_init dotenv environ =
     (case load_dotenv dotenv environ (ascii ''OPENAI_API_KEY'') of
        None \<Rightarrow> Inl missing_key_error
      | Some api_key \<Rightarrow>
          if api_key = [] then Inl missing_key_error
          else Inr \<lparr>model = ascii ''gpt-4o-mini'', openai_api_key = api_key,
                    temperature = (7, -1), max_completion_tokens = 2048\<rparr>)"

section \<open>Notions used to state the properties\<close>

text \<open>
  These are not part of the program. \<open>no_brace\<close> says that a text has neither brace.
  \<open>before_field\<close> and \<open>after_field\<close> are the text of a task's prompt before and after
  its replacement field. \<open>placeholder\<close> is the text of that field.
\<close>

definition no_brace :: "pystr \<Rightarrow> bool" where
  "no_brace s = (123 \<notin> set s \<and> 125 \<notin> set s)"

definition placeholder :: pystr where
  "placeholder = ascii ''{document}''"

definition before_field :: "task \<Rightarrow> pystr" where
  "before_field t = py_lines (prompt_head t) @ [10] @ ascii ''                ''"

definition after_field :: "task \<Rightarrow> pystr" where
  "after_field t = [10] @ py_lines (prompt_tail t)"

text \<open>
  \<open>request t chunk\<close> is the list of messages that the agent of task \<open>t\<close> is shown below to
  submit for a chunk. \<open>replies client requests s\<close> is what a client in state \<open>s\<close> answers
  when it is asked the requests one after the other: it describes the client alone.
\<close>

definition request :: "task \<Rightarrow> pystr \<Rightarrow> message list" where
  "request t chunk =
     [SystemMessage (ascii ''You are a legal expert AI assistant.''),
      HumanMessage (before_field t @ chunk @ after_field t)]"

fun replies :: "'s client \<Rightarrow> message list list \<Rightarrow> 's \<Rightarrow> (exn + pystr) list" where
  "replies client [] s = []"
| "replies client (m # ms) s = (case client m s of (r, s') \<Rightarrow> r # replies client ms s')"

text \<open>
  \<open>requests t document\<close> are the requests for the chunks of a document, in order.
  \<open>agent_of\<close> names the source function of each task.
\<close>

definition requests :: "task \<Rightarrow> pystr \<Rightarrow> message list list" where
  "requests t document =
     (case chunk_document document default_max_length of
        None \<Rightarrow> []
      | Some chunks \<Rightarrow> map (request t) chunks)"

fun agent_of :: "task \<Rightarrow> 's client \<Rightarrow> pystr \<Rightarrow> 's world \<Rightarrow> (pystr \<times> 's world) option" where
  "agent_of Summary = legal_summary_agent"
| "agent_of Appeal = legal_appeal_agent"
| "agent_of Review = legal_review_agent"
| "agent_of Lawsuit = legal_lawsuit_agent"
| "agent_of LawsuitResponse = legal_lawsuit_response_agent"
| "agent_of ContractAnalysis = legal_contract_analysis_agent"

section \<open>Lemmas about the chunker\<close>

declare slices.simps [simp del]

lemma slices_Nil [simp]: "slices n [] = []"
  by (simp add: slices.simps)

lemma slices_step: "0 < n \<Longrightarrow> xs \<noteq> [] \<Longrightarrow> slices n xs = take n xs # slices n (drop n xs)"
  by (subst slices.simps) simp

lemma slices_eq_Nil_iff: "0 < n \<Longrightarrow> slices n xs = [] \<longleftrightarrow> xs = []"
  by (subst slices.simps) simp

lemma concat_slices: "0 < n \<Longrightarrow> concat (slices n xs) = xs"
proof (induction n xs rule: slices.induct)
  case (1 n xs)
  show ?case
  proof (cases "xs = []")
    case True
    then show ?thesis by simp
  next
    case False
    with 1 show ?thesis by (simp add: slices_step)
  qed
qed

lemma length_slices: "0 < n \<Longrightarrow> length (slices n xs) = (length xs + n - 1) div n"
proof (induction n xs rule: slices.induct)
  case (1 n xs)
  show ?case
  proof (cases "xs = []")
    case True
    with 1 show ?thesis by simp
  next
    case False
    then have pos: "0 < length xs" by simp
    have ih: "length (slices n (drop n xs)) = (length xs - n + n - 1) div n"
      using 1 False by simp
    show ?thesis
    proof (cases "length xs \<le> n")
      case True
      from False obtain k where "length xs = Suc k" by (cases xs) auto
      with True "1.prems"
      have "n * Suc 0 \<le> length xs + n - 1" "length xs + n - 1 < n * Suc (Suc 0)"
        by simp_all
      then have "(length xs + n - 1) div n = Suc 0"
        by (rule div_nat_eqI)
      with True ih False "1.prems" show ?thesis by (simp add: slices_step)
    next
      case False2: False
      then have "length xs + n - 1 = (length xs - n + n - 1) + n" by simp
      then have "(length xs + n - 1) div n = (length xs - n + n - 1) div n + 1"
        using "1.prems" by (metis div_add_self2 less_numeral_extra(3))
      with ih False "1.prems" show ?thesis by (simp add: slices_step)
    qed
  qed
qed

lemma slices_lengths:
  "0 < n \<Longrightarrow> i < length (slices n xs) - 1 \<Longrightarrow> length (slices n xs ! i) = n"
proof (induction n xs arbitrary: i rule: slices.induct)
  case (1 n xs)
  from "1.prems" have ne: "xs \<noteq> []" by (auto simp: slices.simps)
  from "1.prems" ne have rest: "slices n (drop n xs) \<noteq> []"
    by (auto simp: slices_step)
  then have "drop n xs \<noteq> []" by (metis slices_Nil)
  then have len: "n \<le> length xs" by simp
  show ?case
  proof (cases i)
    case 0
    with ne "1.prems" len show ?thesis by (simp add: slices_step)
  next
    case (Suc k)
    with "1.prems" ne have "k < length (slices n (drop n xs)) - 1"
      by (simp add: slices_step)
    with 1 ne have "length (slices n (drop n xs) ! k) = n" by simp
    with Suc ne "1.prems" show ?thesis by (simp add: slices_step)
  qed
qed

lemma slices_last:
  "0 < n \<Longrightarrow> xs \<noteq> [] \<Longrightarrow>
    1 \<le> length (last (slices n xs)) \<and> length (last (slices n xs)) \<le> n"
proof (induction n xs rule: slices.induct)
  case (1 n xs)
  show ?case
  proof (cases "drop n xs = []")
    case True
    with "1.prems" show ?thesis by (simp add: slices_step Suc_leI)
  next
    case False
    with "1.prems" have "slices n (drop n xs) \<noteq> []"
      by (simp add: slices_eq_Nil_iff)
    moreover from 1 False
    have "1 \<le> length (last (slices n (drop n xs))) \<and> length (last (slices n (drop n xs))) \<le> n"
      by simp
    ultimately show ?thesis using "1.prems" by (simp add: slices_step)
  qed
qed

lemma slices_short:
  assumes "xs \<noteq> []" "length xs \<le> n"
  shows "slices n xs = [xs]"
proof -
  from assms have "0 < n" by (cases n) auto
  from slices_step [OF this assms(1)] assms(2) show ?thesis by simp
qed

subsection \<open>The loop computes the reference splitting\<close>

lemma py_slice_chunk:
  assumes "0 \<le> start" "start < int (length document)" "1 \<le> max_length"
  shows "py_slice document start (chunk_end document max_length start)
           = take (nat max_length) (drop (nat start) document)"
proof -
  let ?e = "chunk_end document max_length start"
  from assms have e: "start < ?e" "?e \<le> int (length document)" "0 \<le> ?e"
    by (simp_all add: chunk_end_def)
  have "py_slice document start ?e = take (nat (?e - start)) (drop (nat start) document)"
    using assms(1,2) e unfolding py_slice_def Let_def by (simp split: if_splits)
  also have "\<dots> = take (nat max_length) (drop (nat start) document)"
  proof (cases "start + max_length \<le> int (length document)")
    case True
    then show ?thesis by (simp add: chunk_end_def)
  next
    case False
    then have "?e = int (length document)" by (simp add: chunk_end_def)
    moreover from False assms have "length document - nat start \<le> nat max_length" by linarith
    ultimately show ?thesis using assms by (simp add: nat_diff_distrib)
  qed
  finally show ?thesis .
qed

lemma drop_chunk_end:
  assumes "0 \<le> start" "start < int (length document)" "1 \<le> max_length"
  shows "drop (nat (chunk_end document max_length start)) document
           = drop (nat max_length) (drop (nat start) document)"
proof (cases "start + max_length \<le> int (length document)")
  case True
  with assms show ?thesis
    by (simp add: chunk_end_def nat_add_distrib add.commute)
next
  case False
  with assms have "length document \<le> nat max_length + nat start" by linarith
  with False assms show ?thesis by (simp add: chunk_end_def)
qed

lemma chunk_end_progress:
  assumes "0 \<le> start" "start < int (length document)" "1 \<le> max_length"
  shows "start < chunk_end document max_length start"
    and "chunk_end document max_length start \<le> int (length document)"
  using assms by (simp_all add: chunk_end_def)

lemma chunk_loop_slices:
  assumes "1 \<le> max_length" "0 \<le> start"
  shows "chunk_loop document max_length start chunks
           = Some (chunks @ slices (nat max_length) (drop (nat start) document))"
  using assms(2)
proof (induction "length document - nat start" arbitrary: start chunks rule: less_induct)
  case less
  show ?case
  proof (cases "start < int (length document)")
    case False
    with less.prems have "drop (nat start) document = []" by simp
    with False show ?thesis by (subst chunk_loop.simps) simp
  next
    case True
    let ?e = "chunk_end document max_length start"
    from chunk_end_progress [OF less.prems True assms(1)]
    have prog: "start < ?e" "?e \<le> int (length document)" .
    then have smaller: "length document - nat ?e < length document - nat start"
      using less.prems True by linarith
    from prog less.prems have "0 \<le> ?e" by simp
    from less.hyps [OF smaller this]
    have ih: "chunk_loop document max_length ?e
                (chunks @ [py_slice document start ?e])
              = Some ((chunks @ [py_slice document start ?e])
                  @ slices (nat max_length) (drop (nat ?e) document))" .
    from True less.prems have ne: "drop (nat start) document \<noteq> []" by simp
    have "slices (nat max_length) (drop (nat start) document)
            = py_slice document start ?e # slices (nat max_length) (drop (nat ?e) document)"
      using assms(1) ne
      by (simp add: slices_step py_slice_chunk [OF less.prems True assms(1)]
            drop_chunk_end [OF less.prems True assms(1)])
    with ih True show ?thesis by (subst chunk_loop.simps) simp
  qed
qed

lemma chunk_document_slices:
  "1 \<le> max_length \<Longrightarrow> chunk_document document max_length
     = Some (slices (nat max_length) document)"
  by (simp add: chunk_document_def chunk_loop_slices)

lemma chunk_document_Nil: "chunk_document [] max_length = Some []"
  unfolding chunk_document_def by (subst chunk_loop.simps) simp


section \<open>Lemmas about formatting and the prompts\<close>

lemma ascii_Nil [simp]: "ascii [] = []"
  by (simp add: ascii_def)

lemma ascii_append: "ascii (s @ t) = ascii s @ ascii t"
  by (simp add: ascii_def)

lemma of_char_open_brace: "of_char c = (123::nat) \<longleftrightarrow> c = CHR ''{''"
proof -
  have "of_char (CHR ''{'') = (123::nat)" by simp
  then show ?thesis by (metis of_char_eq_iff)
qed

lemma of_char_close_brace: "of_char c = (125::nat) \<longleftrightarrow> c = CHR ''}''"
proof -
  have "of_char (CHR ''}'') = (125::nat)" by simp
  then show ?thesis by (metis of_char_eq_iff)
qed

lemma no_brace_Nil [simp]: "no_brace []"
  by (simp add: no_brace_def)

lemma no_brace_append [simp]: "no_brace (s @ t) \<longleftrightarrow> no_brace s \<and> no_brace t"
  by (auto simp: no_brace_def)

lemma no_brace_Cons: "no_brace (c # s) \<longleftrightarrow> c \<noteq> 123 \<and> c \<noteq> 125 \<and> no_brace s"
  by (auto simp: no_brace_def)

lemma no_brace_ascii:
  "no_brace (ascii s) \<longleftrightarrow> CHR ''{'' \<notin> set s \<and> CHR ''}'' \<notin> set s"
proof -
  have "123 \<in> set (ascii s) \<longleftrightarrow> CHR ''{'' \<in> set s"
    by (auto simp: ascii_def of_char_open_brace)
  moreover have "125 \<in> set (ascii s) \<longleftrightarrow> CHR ''}'' \<in> set s"
    by (auto simp: ascii_def of_char_close_brace)
  ultimately show ?thesis by (simp add: no_brace_def)
qed

lemma no_brace_py_join:
  "no_brace sep \<Longrightarrow> list_all no_brace ls \<Longrightarrow> no_brace (py_join sep ls)"
  by (induction sep ls rule: py_join.induct) simp_all

lemma no_brace_py_lines: "list_all no_brace ls \<Longrightarrow> no_brace (py_lines ls)"
  unfolding py_lines_def by (rule no_brace_py_join) (simp_all add: no_brace_Cons)

lemma py_join_append:
  "xs \<noteq> [] \<Longrightarrow> ys \<noteq> [] \<Longrightarrow> py_join sep (xs @ ys) = py_join sep xs @ sep @ py_join sep ys"
proof (induction sep xs rule: py_join.induct)
  case (1 sep)
  then show ?case by simp
next
  case (2 sep x)
  then show ?case by (cases ys) simp_all
next
  case (3 sep x y zs)
  then show ?case by simp
qed

lemma py_lines_field:
  assumes "hd_lines \<noteq> []" "tl_lines \<noteq> []"
  shows "py_lines (hd_lines @ [l] @ tl_lines)
           = py_lines hd_lines @ [10] @ l @ [10] @ py_lines tl_lines"
proof -
  have "py_join [10] ([l] @ tl_lines) = l @ [10] @ py_join [10] tl_lines"
    using assms(2) by (cases tl_lines) simp_all
  with assms(1) show ?thesis
    unfolding py_lines_def by (simp add: py_join_append)
qed

lemma prepend_Nil [simp]: "prepend [] r = r"
  by (simp add: prepend_def split: sum.splits)

lemma prepend_prepend [simp]: "prepend s (prepend t r) = prepend (s @ t) r"
  by (simp add: prepend_def split: sum.splits)

lemma prepend_Inr [simp]: "prepend s (Inr t) = Inr (s @ t)"
  by (simp add: prepend_def)

lemma format_text_literal:
  "no_brace pre \<Longrightarrow> format_text (pre @ rest) d = prepend pre (format_text rest d)"
proof (induction pre)
  case Nil
  then show ?case by simp
next
  case (Cons c pre)
  then have "c \<noteq> 123" "c \<noteq> 125" "no_brace pre" by (simp_all add: no_brace_Cons)
  with Cons.IH show ?case by simp
qed

lemma format_text_no_brace: "no_brace s \<Longrightarrow> format_text s d = Inr s"
  using format_text_literal [of s "[]" d] by simp

lemma format_text_placeholder:
  "format_text (placeholder @ rest) d = prepend d (format_text rest d)"
  by (simp add: placeholder_def ascii_def)

lemma format_text_one_field:
  assumes "no_brace pre" "no_brace post"
  shows "format_text (pre @ placeholder @ post) d = Inr (pre @ d @ post)"
  by (simp add: format_text_literal [OF assms(1)] format_text_placeholder
        format_text_no_brace [OF assms(2)])

lemma prompt_head_not_Nil: "prompt_head t \<noteq> []"
  by (cases t)
    (simp_all add: summary_head_def appeal_head_def review_head_def lawsuit_head_def
       lawsuit_response_head_def contract_analysis_head_def)

lemma prompt_tail_not_Nil: "prompt_tail t \<noteq> []"
  by (cases t)
    (simp_all add: summary_tail_def appeal_tail_def review_tail_def lawsuit_tail_def
       lawsuit_response_tail_def contract_analysis_tail_def)

lemma field_line_split: "field_line = ascii ''                '' @ placeholder"
  by (simp add: field_line_def placeholder_def ascii_def)

lemma prompt_of_split: "prompt_of t = before_field t @ placeholder @ after_field t"
proof -
  have "prompt_of t = py_lines (prompt_head t) @ [10] @ field_line @ [10] @ py_lines (prompt_tail t)"
    unfolding prompt_of_def
    by (rule py_lines_field [OF prompt_head_not_Nil prompt_tail_not_Nil])
  then show ?thesis
    by (simp add: field_line_split before_field_def after_field_def)
qed

lemma no_brace_summary:
  "list_all no_brace summary_head" "list_all no_brace summary_tail"
  by (simp_all add: summary_head_def summary_tail_def no_brace_ascii no_brace_Cons)

lemma no_brace_appeal:
  "list_all no_brace appeal_head" "list_all no_brace appeal_tail"
  by (simp_all add: appeal_head_def appeal_tail_def no_brace_ascii no_brace_Cons)

lemma no_brace_review:
  "list_all no_brace review_head" "list_all no_brace review_tail"
  by (simp_all add: review_head_def review_tail_def no_brace_ascii no_brace_Cons)

lemma no_brace_lawsuit:
  "list_all no_brace lawsuit_head" "list_all no_brace lawsuit_tail"
  by (simp_all add: lawsuit_head_def lawsuit_tail_def no_brace_ascii no_brace_Cons)

lemma no_brace_lawsuit_response:
  "list_all no_brace lawsuit_response_head" "list_all no_brace lawsuit_response_tail"
  by (simp_all add: lawsuit_response_head_def lawsuit_response_tail_def
        no_brace_ascii no_brace_Cons)

lemma no_brace_contract_analysis:
  "list_all no_brace contract_analysis_head" "list_all no_brace contract_analysis_tail"
  by (simp_all add: contract_analysis_head_def contract_analysis_tail_def
        no_brace_ascii no_brace_Cons)

lemma no_brace_prompt_head: "list_all no_brace (prompt_head t)"
  by (cases t)
    (simp_all add: no_brace_summary no_brace_appeal no_brace_review no_brace_lawsuit
       no_brace_lawsuit_response no_brace_contract_analysis)

lemma no_brace_prompt_tail: "list_all no_brace (prompt_tail t)"
  by (cases t)
    (simp_all add: no_brace_summary no_brace_appeal no_brace_review no_brace_lawsuit
       no_brace_lawsuit_response no_brace_contract_analysis)

lemma no_brace_before_field: "no_brace (before_field t)"
  unfolding before_field_def
  by (simp add: no_brace_py_lines [OF no_brace_prompt_head] no_brace_ascii no_brace_Cons)

lemma no_brace_after_field: "no_brace (after_field t)"
  unfolding after_field_def
  by (simp add: no_brace_py_lines [OF no_brace_prompt_tail] no_brace_Cons)

lemma py_format_prompt:
  "py_format (prompt_of t) chunk = Inr (before_field t @ chunk @ after_field t)"
  unfolding py_format_def prompt_of_split
  by (rule format_text_one_field [OF no_brace_before_field no_brace_after_field])

lemma create_messages_prompt: "create_messages (prompt_of t) chunk = Inr (request t chunk)"
  by (simp add: create_messages_def py_format_prompt request_def)

section \<open>Lemmas about the agents\<close>

lemma agent_of_task_agent: "agent_of t = task_agent t"
  by (cases t)
    (simp_all add: legal_summary_agent_def legal_appeal_agent_def legal_review_agent_def
       legal_lawsuit_agent_def legal_lawsuit_response_agent_def
       legal_contract_analysis_agent_def)

lemma chunk_document_default:
  "chunk_document document default_max_length = Some (slices 5000 document)"
  using chunk_document_slices [of default_max_length document]
  by (simp add: default_max_length_def)

lemma requests_slices: "requests t document = map (request t) (slices 5000 document)"
  by (simp add: requests_def chunk_document_default)

lemma model_invoke_eq:
  "client messages (client_state w) = (r, s') \<Longrightarrow>
     model_invoke client messages w
       = (r, w\<lparr>client_state := s', calls := calls w @ [messages]\<rparr>)"
  by (simp add: model_invoke_def)

lemma agent_loop_success:
  "replies client (map (request t) chunks) (client_state w) = map Inr outs \<Longrightarrow>
     \<exists>w'. agent_loop client (prompt_of t) chunks parts w = (Inr (parts @ outs), w')
        \<and> calls w' = calls w @ map (request t) chunks
        \<and> error_log w' = error_log w"
proof (induction chunks arbitrary: parts w outs)
  case Nil
  then show ?case by simp
next
  case (Cons c cs)
  obtain r s' where step: "client (request t c) (client_state w) = (r, s')"
    by (cases "client (request t c) (client_state w)")
  let ?w1 = "w\<lparr>client_state := s', calls := calls w @ [request t c]\<rparr>"
  from Cons.prems step
  have split: "r # replies client (map (request t) cs) s' = map Inr outs" by simp
  then obtain out outs' where outs: "outs = out # outs'" "r = Inr out"
    and rest: "replies client (map (request t) cs) (client_state ?w1) = map Inr outs'"
    by (cases outs) auto
  from Cons.IH [OF rest, of "parts @ [out]"]
  obtain w' where run: "agent_loop client (prompt_of t) cs (parts @ [out]) ?w1
                          = (Inr ((parts @ [out]) @ outs'), w')"
    and log: "calls w' = calls ?w1 @ map (request t) cs" "error_log w' = error_log ?w1"
    by blast
  have "agent_loop client (prompt_of t) (c # cs) parts w = (Inr (parts @ outs), w')"
    using run outs by (simp add: create_messages_prompt model_invoke_eq [where client = client and w = w, OF step])
  with log show ?case by simp
qed

lemma agent_loop_failure:
  "replies client (map (request t) chunks) (client_state w) = map Inr outs @ Inl e # rest \<Longrightarrow>
     \<exists>w'. agent_loop client (prompt_of t) chunks parts w = (Inl e, w')
        \<and> calls w' = calls w @ take (Suc (length outs)) (map (request t) chunks)
        \<and> error_log w' = error_log w"
proof (induction chunks arbitrary: parts w outs)
  case Nil
  then show ?case by simp
next
  case (Cons c cs)
  obtain r s' where step: "client (request t c) (client_state w) = (r, s')"
    by (cases "client (request t c) (client_state w)")
  let ?w1 = "w\<lparr>client_state := s', calls := calls w @ [request t c]\<rparr>"
  from Cons.prems step
  have split: "r # replies client (map (request t) cs) s' = map Inr outs @ Inl e # rest"
    by simp
  show ?case
  proof (cases outs)
    case Nil
    with split have "r = Inl e" by simp
    then have "agent_loop client (prompt_of t) (c # cs) parts w = (Inl e, ?w1)"
      by (simp add: create_messages_prompt model_invoke_eq [where client = client and w = w, OF step])
    with Nil show ?thesis by simp
  next
    case (Cons out outs')
    with split have r: "r = Inr out"
      and rest: "replies client (map (request t) cs) (client_state ?w1)
                   = map Inr outs' @ Inl e # rest"
      by simp_all
    from Cons.IH [OF rest, of "parts @ [out]"]
    obtain w' where run: "agent_loop client (prompt_of t) cs (parts @ [out]) ?w1 = (Inl e, w')"
      and log: "calls w' = calls ?w1 @ take (Suc (length outs')) (map (request t) cs)"
        "error_log w' = error_log ?w1"
      by blast
    have "agent_loop client (prompt_of t) (c # cs) parts w = (Inl e, w')"
      using run r by (simp add: create_messages_prompt model_invoke_eq [where client = client and w = w, OF step])
    with log Cons show ?thesis by simp
  qed
qed

lemma first_raise:
  "Inl e \<in> set rs \<Longrightarrow> \<exists>outs e' rest. rs = map Inr outs @ Inl e' # rest"
proof (induction rs)
  case Nil
  then show ?case by simp
next
  case (Cons r rs)
  show ?case
  proof (cases r)
    case (Inl e')
    then have "r # rs = map Inr [] @ Inl e' # rs" by simp
    then show ?thesis by blast
  next
    case (Inr out)
    with Cons.prems have "Inl e \<in> set rs" by simp
    from Cons.IH [OF this] obtain outs e' rest where "rs = map Inr outs @ Inl e' # rest"
      by blast
    with Inr have "r # rs = map Inr (out # outs) @ Inl e' # rest" by simp
    then show ?thesis by blast
  qed
qed

lemma replies_constant:
  "\<forall>messages s. fst (client messages s) = Inr x \<Longrightarrow>
     replies client ms s = map Inr (replicate (length ms) x)"
proof (induction ms arbitrary: s)
  case Nil
  then show ?case by simp
next
  case (Cons m ms)
  obtain r s' where step: "client m s = (r, s')" by (cases "client m s")
  with Cons.prems have "r = Inr x" by (metis fst_conv)
  with step Cons show ?case by simp
qed

lemma task_agent_success:
  assumes "replies client (requests t document) (client_state w) = map Inr outs"
  shows "\<exists>w'. task_agent t client document w = Some (py_join (ascii '' '') outs, w')
           \<and> calls w' = calls w @ requests t document
           \<and> error_log w' = error_log w"
proof -
  from assms have "replies client (map (request t) (slices 5000 document)) (client_state w)
                     = map Inr outs"
    by (simp add: requests_slices)
  from agent_loop_success [OF this, of "[]"]
  obtain w' where "agent_loop client (prompt_of t) (slices 5000 document) [] w = (Inr outs, w')"
    and "calls w' = calls w @ map (request t) (slices 5000 document)"
    and "error_log w' = error_log w"
    by auto
  then show ?thesis
    by (simp add: task_agent_def chunk_document_default requests_slices)
qed

lemma task_agent_failure:
  assumes "replies client (requests t document) (client_state w) = map Inr outs @ Inl e # rest"
  shows "\<exists>w'. task_agent t client document w = Some (error_prefix t @ str_exn e, w')
           \<and> calls w' = calls w @ take (Suc (length outs)) (requests t document)
           \<and> error_log w' = error_log w @ [log_prefix t @ str_exn e]"
proof -
  from assms have "replies client (map (request t) (slices 5000 document)) (client_state w)
                     = map Inr outs @ Inl e # rest"
    by (simp add: requests_slices)
  from agent_loop_failure [OF this, of "[]"]
  obtain w' where "agent_loop client (prompt_of t) (slices 5000 document) [] w = (Inl e, w')"
    and "calls w' = calls w @ take (Suc (length outs)) (map (request t) (slices 5000 document))"
    and "error_log w' = error_log w"
    by auto
  then show ?thesis
    by (simp add: task_agent_def chunk_document_default requests_slices logging_error_def)
qed

lemma error_prefix_Error: "prefix (ascii ''Error '') (error_prefix t)"
  by (cases t) (simp_all add: ascii_def)

lemma py_join_three: "py_join sep (replicate 3 x) = x @ sep @ x @ sep @ x"
  by (simp add: numeral_3_eq_3)

lemma sublist_skip:
  "c \<notin> set a \<Longrightarrow> sublist (c # q) (a @ r) \<longleftrightarrow> sublist (c # q) r"
proof (induction a)
  case Nil
  then show ?case by simp
next
  case (Cons x a)
  then have "x \<noteq> c" "c \<notin> set a" by auto
  with Cons.IH show ?case by (simp add: sublist_Cons_right)
qed

lemma sublist_skip_left:
  "no_brace a \<Longrightarrow> sublist (123 # q) (a @ r) \<longleftrightarrow> sublist (123 # q) r"
  by (rule sublist_skip) (simp add: no_brace_def)

lemma sublist_skip_right:
  assumes "no_brace b"
  shows "sublist (q @ [125]) (r @ b) \<longleftrightarrow> sublist (q @ [125]) r"
proof -
  have nb: "125 \<notin> set (rev b)" using assms by (simp add: no_brace_def)
  have "sublist (q @ [125]) (r @ b) \<longleftrightarrow> sublist (rev (q @ [125])) (rev (r @ b))"
    by (simp only: sublist_rev)
  also have "\<dots> \<longleftrightarrow> sublist (125 # rev q) (rev b @ rev r)" by simp
  also have "\<dots> \<longleftrightarrow> sublist (125 # rev q) (rev r)" using nb by (rule sublist_skip)
  also have "\<dots> \<longleftrightarrow> sublist (rev (q @ [125])) (rev r)" by simp
  also have "\<dots> \<longleftrightarrow> sublist (q @ [125]) r" by (simp only: sublist_rev)
  finally show ?thesis .
qed

lemma sublist_placeholder:
  assumes "no_brace a" "no_brace b"
  shows "sublist placeholder (a @ chunk @ b) \<longleftrightarrow> sublist placeholder chunk"
proof -
  have l: "placeholder = 123 # ascii ''document}''"
    and r: "placeholder = ascii ''{document'' @ [125]"
    by (simp_all add: placeholder_def ascii_def)
  have "sublist placeholder (a @ chunk @ b) \<longleftrightarrow> sublist placeholder (chunk @ b)"
    unfolding l using assms(1) by (rule sublist_skip_left)
  also have "\<dots> \<longleftrightarrow> sublist placeholder chunk"
    unfolding r using assms(2) by (rule sublist_skip_right)
  finally show ?thesis .
qed

section \<open>Properties of the chunker\<close>

text \<open>
  C1. For every document \<open>D\<close> and every maximum chunk length \<open>L > 0\<close>, the chunker
  returns a list of chunks whose concatenation in order is \<open>D\<close>; every chunk except
  possibly the last has length exactly \<open>L\<close>; the last chunk, when there is one, has a
  length between 1 and \<open>L\<close>; and the empty document yields zero chunks.
\<close>

theorem chunk_document_partition:
  assumes "0 < L"
  shows "\<exists>chunks. chunk_document D L = Some chunks
           \<and> concat chunks = D
           \<and> (\<forall>i. i < length chunks - 1 \<longrightarrow> int (length (chunks ! i)) = L)
           \<and> (chunks \<noteq> [] \<longrightarrow> 1 \<le> length (last chunks) \<and> int (length (last chunks)) \<le> L)
           \<and> (D = [] \<longleftrightarrow> chunks = [])"
proof -
  from assms have L: "1 \<le> L" and n: "0 < nat L" by simp_all
  let ?cs = "slices (nat L) D"
  have "chunk_document D L = Some ?cs" using L by (rule chunk_document_slices)
  moreover have "concat ?cs = D" using n by (rule concat_slices)
  moreover have "\<forall>i. i < length ?cs - 1 \<longrightarrow> int (length (?cs ! i)) = L"
  proof (intro allI impI)
    fix i assume "i < length ?cs - 1"
    from slices_lengths [OF n this] assms show "int (length (?cs ! i)) = L" by simp
  qed
  moreover have "?cs \<noteq> [] \<longrightarrow> 1 \<le> length (last ?cs) \<and> int (length (last ?cs)) \<le> L"
  proof
    assume "?cs \<noteq> []"
    then have "D \<noteq> []" by (metis slices_Nil)
    from slices_last [OF n this] assms show "1 \<le> length (last ?cs) \<and> int (length (last ?cs)) \<le> L"
      by linarith
  qed
  moreover have "D = [] \<longleftrightarrow> ?cs = []" using n by (simp add: slices_eq_Nil_iff)
  ultimately show ?thesis by blast
qed

theorem chunk_document_partition_witness:
  "(0::int) < 2 \<and> (\<exists>chunks. chunk_document [10, 20, 30, 40, 50::nat] 2 = Some chunks
      \<and> chunks = [[10, 20], [30, 40], [50]]
      \<and> concat chunks = [10, 20, 30, 40, 50]
      \<and> (\<forall>i. i < length chunks - 1 \<longrightarrow> int (length (chunks ! i)) = 2)
      \<and> (chunks \<noteq> [] \<longrightarrow> 1 \<le> length (last chunks) \<and> int (length (last chunks)) \<le> 2)
      \<and> ([10, 20, 30, 40, 50::nat] = [] \<longleftrightarrow> chunks = []))"
proof -
  have run: "chunk_document [10, 20, 30, 40, 50::nat] 2 = Some [[10, 20], [30, 40], [50]]"
    by (simp add: chunk_document_def chunk_loop.simps [of "_ # _"] py_slice_def chunk_end_def)
  from chunk_document_partition [of 2 "[10, 20, 30, 40, 50::nat]"] run
  show ?thesis by simp
qed


text \<open>
  C6, as amended. For every non-empty document \<open>D\<close> whose length is at most the maximum
  chunk length \<open>L\<close>, the chunker returns exactly one chunk, equal to \<open>D\<close>.
\<close>

theorem chunk_document_short:
  assumes "D \<noteq> []" "int (length D) \<le> L"
  shows "chunk_document D L = Some [D]"
proof -
  from assms have "1 \<le> L" by (cases D) auto
  then have "chunk_document D L = Some (slices (nat L) D)" by (rule chunk_document_slices)
  moreover from assms have "slices (nat L) D = [D]" by (intro slices_short) simp_all
  ultimately show ?thesis by simp
qed

text \<open>C6, the amended statement at the document \<open>abc\<close> with \<open>L = 5\<close>.\<close>

theorem chunk_document_short_witness:
  "ascii ''abc'' \<noteq> [] \<and> int (length (ascii ''abc'')) \<le> 5
     \<and> chunk_document (ascii ''abc'') 5 = Some [ascii ''abc'']"
  using chunk_document_short [of "ascii ''abc''" 5] by (simp add: ascii_def)

text \<open>
  C6 as stated (every document of length at most \<open>L\<close> gives exactly one chunk equal to
  it) fails for the empty document, whose length 0 is at most the default 5000: the
  loop body never runs and the result has no chunk.
\<close>

theorem chunk_document_short_counterexample:
  "int (length ([] :: pystr)) \<le> default_max_length
     \<and> chunk_document ([] :: pystr) default_max_length = Some []
     \<and> chunk_document ([] :: pystr) default_max_length \<noteq> Some [[]]"
  by (simp add: chunk_document_Nil default_max_length_def)

text \<open>
  C10. For every document and every \<open>max_length \<ge> 1\<close>, \<^verbatim>\<open>chunk_document\<close> returns (a
  list, hence a finite one); at every scan position inside the document the next
  position is strictly larger and not beyond the document's length.
\<close>

theorem chunk_document_terminates:
  assumes "1 \<le> max_length"
  shows "(\<exists>chunks. chunk_document document max_length = Some chunks)
           \<and> (\<forall>start. 0 \<le> start \<and> start < int (length document) \<longrightarrow>
                 start < chunk_end document max_length start
                 \<and> chunk_end document max_length start \<le> int (length document))"
proof
  show "\<exists>chunks. chunk_document document max_length = Some chunks"
    using chunk_document_slices [OF assms] by blast
  show "\<forall>start. 0 \<le> start \<and> start < int (length document) \<longrightarrow>
          start < chunk_end document max_length start
          \<and> chunk_end document max_length start \<le> int (length document)"
    using assms by (simp add: chunk_end_def)
qed

text \<open>C10 at the document \<open>abcde\<close> with \<open>max_length = 2\<close>.\<close>

theorem chunk_document_terminates_witness:
  "(1::int) \<le> 2
     \<and> (\<exists>chunks. chunk_document (ascii ''abcde'') 2 = Some chunks)
     \<and> 4 < chunk_end (ascii ''abcde'') 2 4
     \<and> chunk_end (ascii ''abcde'') 2 4 \<le> int (length (ascii ''abcde''))"
  using chunk_document_terminates [of 2 "ascii ''abcde''"] by (simp add: ascii_def)

section \<open>Properties of rendering and of the agents\<close>

text \<open>
  C5. For every task and every chunk text, rendering the task's prompt succeeds, and
  the user instruction sent to the completion client is the prompt's text before the
  replacement field, then the chunk text as it is, then the prompt's text after the
  field. The prompt's own text on either side has no brace, so no placeholder of the
  prompt is left in the instruction: the text \<^verbatim>\<open>{document}\<close> occurs in the instruction
  exactly when the chunk text itself contains it.
\<close>

theorem rendered_instruction:
  "create_messages (prompt_of t) chunk
     = Inr [SystemMessage (ascii ''You are a legal expert AI assistant.''),
            HumanMessage (before_field t @ chunk @ after_field t)]
   \<and> prompt_of t = before_field t @ placeholder @ after_field t
   \<and> sublist chunk (before_field t @ chunk @ after_field t)
   \<and> no_brace (before_field t) \<and> no_brace (after_field t)
   \<and> (sublist placeholder (before_field t @ chunk @ after_field t)
        \<longleftrightarrow> sublist placeholder chunk)"
proof -
  have "create_messages (prompt_of t) chunk
          = Inr [SystemMessage (ascii ''You are a legal expert AI assistant.''),
                 HumanMessage (before_field t @ chunk @ after_field t)]"
    using create_messages_prompt [of t chunk] by (simp add: request_def)
  moreover have "sublist chunk (before_field t @ chunk @ after_field t)"
    by (rule sublist_appendI)
  moreover note prompt_of_split [of t] no_brace_before_field [of t] no_brace_after_field [of t]
    sublist_placeholder [OF no_brace_before_field no_brace_after_field, of t chunk t]
  ultimately show ?thesis by blast
qed

text \<open>C5 for the summary task and the chunk text \<open>abc\<close>.\<close>

theorem rendered_instruction_witness:
  "create_messages (prompt_of Summary) (ascii ''abc'')
     = Inr [SystemMessage (ascii ''You are a legal expert AI assistant.''),
            HumanMessage (before_field Summary @ ascii ''abc'' @ after_field Summary)]
   \<and> sublist (ascii ''abc'') (before_field Summary @ ascii ''abc'' @ after_field Summary)
   \<and> \<not> sublist placeholder (before_field Summary @ ascii ''abc'' @ after_field Summary)"
proof -
  have "\<not> sublist placeholder (ascii ''abc'')"
    by (simp add: placeholder_def ascii_def sublist_Cons_right)
  with rendered_instruction [of Summary "ascii ''abc''"] show ?thesis by blast
qed

text \<open>
  C2. For every non-chat task agent and every document \<open>D\<close>, if the completion client
  returns the string \<open>X\<close> on every call, the agent returns \<open>X\<close> once per chunk of \<open>D\<close>,
  joined by single spaces, after one request per chunk; for a document of 12000
  characters that is \<open>X X X\<close>.
\<close>

theorem task_agent_constant_client:
  assumes "\<forall>messages s. fst (client messages s) = Inr (ascii ''X'')"
  shows "\<exists>chunks w'. chunk_document D default_max_length = Some chunks
           \<and> agent_of t client D w
               = Some (py_join (ascii '' '') (replicate (length chunks) (ascii ''X'')), w')
           \<and> calls w' = calls w @ map (request t) chunks
           \<and> (length D = 12000 \<longrightarrow>
                py_join (ascii '' '') (replicate (length chunks) (ascii ''X'')) = ascii ''X X X'')"
proof -
  let ?cs = "slices 5000 D"
  let ?outs = "replicate (length ?cs) (ascii ''X'')"
  have "replies client (requests t D) (client_state w) = map Inr ?outs"
    using replies_constant [OF assms, of "requests t D" "client_state w"]
    by (simp add: requests_slices)
  from task_agent_success [OF this]
  obtain w' where run: "task_agent t client D w = Some (py_join (ascii '' '') ?outs, w')"
    and log: "calls w' = calls w @ requests t D"
    by blast
  have three: "length D = 12000 \<longrightarrow> py_join (ascii '' '') ?outs = ascii ''X X X''"
  proof
    assume "length D = 12000"
    then have "length ?cs = 3" by (simp add: length_slices)
    then show "py_join (ascii '' '') ?outs = ascii ''X X X''"
      by (simp add: py_join_three ascii_def)
  qed
  from run log three show ?thesis
    by (auto simp: agent_of_task_agent chunk_document_default requests_slices)
qed

text \<open>
  C2 for \<^verbatim>\<open>legal_summary_agent\<close>, a client without state that always answers \<open>X\<close>, and a
  document of 12000 letters \<open>A\<close>.
\<close>

theorem task_agent_constant_client_witness:
  "(\<forall>messages s. fst ((\<lambda>m (u::unit). (Inr (ascii ''X''), u)) messages s) = Inr (ascii ''X''))
   \<and> (\<exists>w'. legal_summary_agent (\<lambda>m (u::unit). (Inr (ascii ''X''), u)) (replicate 12000 65)
              \<lparr>client_state = (), calls = [], error_log = []\<rparr>
            = Some (ascii ''X X X'', w'))"
proof -
  have h: "\<forall>messages s. fst ((\<lambda>m (u::unit). (Inr (ascii ''X''), u)) messages s) = Inr (ascii ''X'')"
    by simp
  from task_agent_constant_client [OF h, of "replicate 12000 65" Summary
      "\<lparr>client_state = (), calls = [], error_log = []\<rparr>"]
  show ?thesis by auto
qed

text \<open>
  C3. For every non-chat task agent and every document, if the completion client raises
  on the call for some chunk, the agent returns (it does not raise) the task's error
  text, which begins with \<open>Error\<close>, followed by the text of the first exception raised.
  The returned string is built from that exception alone: no output of the chunks
  answered before enters it, and no request is made after the failing one.
\<close>

theorem task_agent_client_raises:
  assumes "\<exists>e. Inl e \<in> set (replies client (requests t D) (client_state w))"
  shows "\<exists>outs e rest w'.
           replies client (requests t D) (client_state w) = map Inr outs @ Inl e # rest
           \<and> agent_of t client D w = Some (error_prefix t @ str_exn e, w')
           \<and> prefix (ascii ''Error '') (error_prefix t @ str_exn e)
           \<and> calls w' = calls w @ take (Suc (length outs)) (requests t D)
           \<and> error_log w' = error_log w @ [log_prefix t @ str_exn e]"
proof -
  from assms obtain e0 where "Inl e0 \<in> set (replies client (requests t D) (client_state w))"
    by blast
  from first_raise [OF this] obtain outs e rest
    where split: "replies client (requests t D) (client_state w) = map Inr outs @ Inl e # rest"
    by blast
  from task_agent_failure [OF split]
  obtain w' where "task_agent t client D w = Some (error_prefix t @ str_exn e, w')"
    and "calls w' = calls w @ take (Suc (length outs)) (requests t D)"
    and "error_log w' = error_log w @ [log_prefix t @ str_exn e]"
    by blast
  moreover have "prefix (ascii ''Error '') (error_prefix t @ str_exn e)"
    using error_prefix_Error [of t] by (rule prefix_prefix)
  ultimately show ?thesis using split by (auto simp: agent_of_task_agent)
qed

text \<open>
  C3 for \<^verbatim>\<open>legal_summary_agent\<close> and a document of 5001 characters, hence two chunks. The
  client counts its calls: it answers \<open>X\<close> to the first and raises on every later one.
\<close>

theorem task_agent_client_raises_witness:
  "(\<exists>e. Inl e \<in> set (replies
            (\<lambda>m n. (if n = (0::nat) then Inr (ascii ''X'') else Inl (ClientError (ascii ''quota'')), Suc n))
            (requests Summary (replicate 5001 65)) 0))
   \<and> (\<exists>w'. legal_summary_agent
              (\<lambda>m n. (if n = (0::nat) then Inr (ascii ''X'') else Inl (ClientError (ascii ''quota'')), Suc n))
              (replicate 5001 65) \<lparr>client_state = 0, calls = [], error_log = []\<rparr>
            = Some (ascii ''Error generating summary: quota'', w'))"
proof -
  let ?client = "\<lambda>(m::message list) n.
    (if n = (0::nat) then Inr (ascii ''X'') else Inl (ClientError (ascii ''quota'')), Suc n)"
  have "slices 5000 (replicate 5001 (65::nat)) = [replicate 5000 65, [65]]"
    by (simp add: slices_step)
  then have run: "replies ?client (requests Summary (replicate 5001 65)) 0
                    = [Inr (ascii ''X''), Inl (ClientError (ascii ''quota''))]"
    by (simp add: requests_slices)
  then have h: "\<exists>e. Inl e \<in> set (replies ?client (requests Summary (replicate 5001 65)) 0)"
    by simp
  from task_agent_client_raises [of ?client Summary "replicate 5001 65"
      "\<lparr>client_state = 0, calls = [], error_log = []\<rparr>"] h
  obtain outs e rest w' where
    split: "replies ?client (requests Summary (replicate 5001 65)) 0 = map Inr outs @ Inl e # rest"
    and res: "legal_summary_agent ?client (replicate 5001 65)
                \<lparr>client_state = 0, calls = [], error_log = []\<rparr>
              = Some (error_prefix Summary @ str_exn e, w')"
    by auto
  from split run have "map Inr outs @ Inl e # rest
                         = [Inr (ascii ''X''), Inl (ClientError (ascii ''quota''))]"
    by simp
  then have "e = ClientError (ascii ''quota'')"
    by (cases outs; cases "tl outs") auto
  with res have "legal_summary_agent ?client (replicate 5001 65)
                   \<lparr>client_state = 0, calls = [], error_log = []\<rparr>
                 = Some (ascii ''Error generating summary: quota'', w')"
    by (simp add: ascii_def)
  with h show ?thesis by blast
qed

text \<open>
  C9. For the empty document every non-chat task agent returns the empty string and
  leaves the world as it was: no request reaches the completion client.
\<close>

theorem task_agent_empty_document:
  "agent_of t client [] w = Some ([], w)"
  by (simp add: agent_of_task_agent task_agent_def chunk_document_Nil)

text \<open>C9 for \<^verbatim>\<open>legal_summary_agent\<close> and a client that would raise on any call.\<close>

theorem task_agent_empty_document_witness:
  "legal_summary_agent (\<lambda>m (u::unit). (Inl (ClientError (ascii ''down'')), u)) []
     \<lparr>client_state = (), calls = [], error_log = []\<rparr>
   = Some ([], \<lparr>client_state = (), calls = [], error_log = []\<rparr>)"
  using task_agent_empty_document [of Summary
      "\<lambda>m (u::unit). (Inl (ClientError (ascii ''down'')), u)"
      "\<lparr>client_state = (), calls = [], error_log = []\<rparr>"]
  by simp

text \<open>
  C4. For every document and question, if the completion client raises on the chat
  agent's call, the chat agent returns (it does not raise) the fixed apology string,
  whatever the exception is.
\<close>

theorem chat_agent_client_raises:
  assumes "fst (client (chat_messages document question) (client_state w)) = Inl e"
  shows "fst (legal_chat_helper_agent client document question w) = chat_apology"
proof -
  obtain r s' where step: "client (chat_messages document question) (client_state w) = (r, s')"
    by (cases "client (chat_messages document question) (client_state w)")
  with assms have "r = Inl e" by simp
  with step show ?thesis
    by (simp add: legal_chat_helper_agent_def model_invoke_def)
qed

text \<open>C4 for a client that always raises.\<close>

theorem chat_agent_client_raises_witness:
  "fst ((\<lambda>m (u::unit). (Inl (ClientError (ascii ''down'')), u))
          (chat_messages (ascii ''text'') (ascii ''why?''))
          (client_state \<lparr>client_state = (), calls = [], error_log = []\<rparr>))
     = Inl (ClientError (ascii ''down''))
   \<and> fst (legal_chat_helper_agent (\<lambda>m (u::unit). (Inl (ClientError (ascii ''down'')), u))
            (ascii ''text'') (ascii ''why?'') \<lparr>client_state = (), calls = [], error_log = []\<rparr>)
     = chat_apology"
proof -
  have h: "fst ((\<lambda>m (u::unit). (Inl (ClientError (ascii ''down'')), u))
                  (chat_messages (ascii ''text'') (ascii ''why?''))
                  (client_state \<lparr>client_state = (), calls = [], error_log = []\<rparr>))
             = Inl (ClientError (ascii ''down''))"
    by simp
  from h chat_agent_client_raises
      [of "\<lambda>m (u::unit). (Inl (ClientError (ascii ''down'')), u)" "ascii ''text''" "ascii ''why?''"
          "\<lparr>client_state = (), calls = [], error_log = []\<rparr>" "ClientError (ascii ''down'')"]
  show ?thesis by simp
qed

text \<open>
  C7. For every document and question the chat agent does not chunk: one invocation
  adds exactly one request to the calls made, that request holds the question and the
  whole document in its user instruction, and when the client answers, the agent
  returns the answer as it is.
\<close>

theorem chat_agent_single_request:
  "calls (snd (legal_chat_helper_agent client document question w))
     = calls w @ [chat_messages document question]
   \<and> chat_messages document question
       = [SystemMessage (py_lines chat_system_lines),
          HumanMessage (py_lines chat_before_question @ question @ py_lines chat_between
                          @ document @ py_lines chat_after_document)]
   \<and> (\<forall>content. fst (client (chat_messages document question) (client_state w)) = Inr content
        \<longrightarrow> fst (legal_chat_helper_agent client document question w) = content)"
proof -
  obtain r s' where step: "client (chat_messages document question) (client_state w) = (r, s')"
    by (cases "client (chat_messages document question) (client_state w)")
  then have "calls (snd (legal_chat_helper_agent client document question w))
               = calls w @ [chat_messages document question]"
    by (cases r) (simp_all add: legal_chat_helper_agent_def model_invoke_def logging_error_def)
  moreover have "\<forall>content. fst (client (chat_messages document question) (client_state w))
                     = Inr content
                   \<longrightarrow> fst (legal_chat_helper_agent client document question w) = content"
    using step by (simp add: legal_chat_helper_agent_def model_invoke_def)
  ultimately show ?thesis by (simp add: chat_messages_def)
qed

text \<open>C7 for a client that answers \<open>ok\<close>, starting with no call made.\<close>

theorem chat_agent_single_request_witness:
  "legal_chat_helper_agent (\<lambda>m (u::unit). (Inr (ascii ''ok''), u)) (ascii ''text'') (ascii ''why?'')
     \<lparr>client_state = (), calls = [], error_log = []\<rparr>
   = (ascii ''ok'', \<lparr>client_state = (),
        calls = [chat_messages (ascii ''text'') (ascii ''why?'')], error_log = []\<rparr>)"
proof -
  let ?client = "\<lambda>(m::message list) (u::unit). (Inr (ascii ''ok'') :: exn + pystr, u)"
  let ?w = "\<lparr>client_state = (), calls = [], error_log = []\<rparr>"
  let ?r = "legal_chat_helper_agent ?client (ascii ''text'') (ascii ''why?'') ?w"
  from chat_agent_single_request [of ?client "ascii ''text''" "ascii ''why?''" ?w]
  have "calls (snd ?r) = [chat_messages (ascii ''text'') (ascii ''why?'')]"
    and "fst ?r = ascii ''ok''"
    by simp_all
  moreover have "client_state (snd ?r) = ()" by simp
  moreover have "error_log (snd ?r) = []"
    by (simp add: legal_chat_helper_agent_def model_invoke_def)
  ultimately show ?thesis by (cases ?r) auto
qed

text \<open>
  C8. If \<^verbatim>\<open>OPENAI_API_KEY\<close> is in neither the \<^verbatim>\<open>.env\<close> file nor the environment when the
  module starts, the start of the module raises \<^verbatim>\<open>ValueError\<close> with the text that names
  the variable. The result is the exception and no client: the agents, defined by the
  statements after it, do not come into being.
\<close>

theorem module_init_missing_key:
  assumes "dotenv (ascii ''OPENAI_API_KEY'') = None"
    and "environ (ascii ''OPENAI_API_KEY'') = None"
  shows "module_init dotenv environ
           = Inl (ValueError (ascii ''OPENAI_API_KEY not found in environment variables''))"
  using assms
  by (simp add: module_init_def load_dotenv_def missing_key_error_def map_add_def)

text \<open>C8 with no \<^verbatim>\<open>.env\<close> file and an empty environment.\<close>

theorem module_init_missing_key_witness:
  "Map.empty (ascii ''OPENAI_API_KEY'') = (None :: pystr option)
   \<and> module_init Map.empty Map.empty
       = Inl (ValueError (ascii ''OPENAI_API_KEY not found in environment variables''))"
  using module_init_missing_key [of Map.empty Map.empty] by simp

end
